theory Spec2Isabelle
  imports Main "HOL-Library.Sublist"
begin

section \<open>ICT Face Kit: the face model loader\<close>

text \<open>
  A shallow embedding of \<^verbatim>\<open>operators/face_model_loader.py\<close>: the functions
  \<^verbatim>\<open>import_obj\<close> and \<^verbatim>\<open>loadICTFaceModel\<close>. The host application (the file system,
  the JSON reader, the mesh importers and the shape operators of Blender) is a parameter
  of the model; the Python exceptions are values.
\<close>

subsection \<open>Exceptions\<close>

datatype exn_class =
    ValueError | FileNotFoundError | ImportError | JSONDecodeError
  | KeyError | TypeError | RuntimeError | OtherException string

text \<open>
  An exception \<^verbatim>\<open>e\<close>: its class and \<^verbatim>\<open>str(e)\<close>. Every class here is a
  subclass of \<^verbatim>\<open>Exception\<close>, so \<^verbatim>\<open>except Exception\<close> catches all of them;
  \<^verbatim>\<open>except json.JSONDecodeError\<close> catches the class \<open>JSONDecodeError\<close> only.
\<close>

datatype exn = Exn (exn_class: exn_class) (str: string)

subsection \<open>Strings, paths and number formatting\<close>

text \<open>\<^verbatim>\<open>os.path.join(a, b)\<close> of \<^verbatim>\<open>posixpath\<close>, for two components.\<close>

definition path_join :: "string \<Rightarrow> string \<Rightarrow> string" where
  "path_join a b =
     (if b \<noteq> [] \<and> hd b = CHR ''/'' then b
      else if a = [] \<or> last a = CHR ''/'' then a @ b
      else a @ ''/'' @ b)"

definition digit_char :: "nat \<Rightarrow> char" where
  "digit_char d = char_of (48 + d)"

text \<open>\<^verbatim>\<open>str(n)\<close> of a non-negative integer: its decimal digits.\<close>

fun dec_digits :: "nat \<Rightarrow> string" where
  "dec_digits n =
     (if n < 10 then [digit_char n] else dec_digits (n div 10) @ [digit_char (n mod 10)])"

declare dec_digits.simps [simp del]

text \<open>\<^verbatim>\<open>"{:03d}".format(n)\<close>: the digits, padded with zeros on the left to width 3.\<close>

definition format_03d :: "nat \<Rightarrow> string" where
  "format_03d n = replicate (3 - length (dec_digits n)) CHR ''0'' @ dec_digits n"

subsection \<open>Parsed JSON and the Python operations the loader applies to it\<close>

text \<open>
  A Python float, as far as the loader can tell floats apart: a finite value
  \<open>m * 2 ^ e\<close>, an infinity, or a NaN.
\<close>

datatype pyfloat = Finite int int | Infinity bool | NaN

text \<open>
  The value \<^verbatim>\<open>json.load\<close> returns. An object is the list of the items of the
  Python dict, in insertion order.
\<close>

datatype json =
    JNull | JBool bool | JInt int | JFloat pyfloat | JStr string
  | JArr "json list" | JObj "(string \<times> json) list"

text \<open>Truth value of a Python object, as \<^verbatim>\<open>not config\<close> tests it.\<close>

fun py_truthy :: "json \<Rightarrow> bool" where
  "py_truthy JNull = False"
| "py_truthy (JBool b) = b"
| "py_truthy (JInt i) = (i \<noteq> 0)"
| "py_truthy (JFloat (Finite m e)) = (m \<noteq> 0)"
| "py_truthy (JFloat _) = True"
| "py_truthy (JStr s) = (s \<noteq> [])"
| "py_truthy (JArr xs) = (xs \<noteq> [])"
| "py_truthy (JObj kvs) = (kvs \<noteq> [])"

text \<open>A string between single, or double, quotation marks.\<close>

definition sq :: "string \<Rightarrow> string" where
  "sq s = [CHR 0x27] @ s @ [CHR 0x27]"

definition dq :: "string \<Rightarrow> string" where
  "dq s = [CHR 0x22] @ s @ [CHR 0x22]"

fun type_name :: "json \<Rightarrow> string" where
  "type_name JNull = ''NoneType''"
| "type_name (JBool _) = ''bool''"
| "type_name (JInt _) = ''int''"
| "type_name (JFloat _) = ''float''"
| "type_name (JStr _) = ''str''"
| "type_name (JArr _) = ''list''"
| "type_name (JObj _) = ''dict''"

text \<open>\<^verbatim>\<open>v[key]\<close> with a \<^verbatim>\<open>str\<close> key, as in \<^verbatim>\<open>config['expressions']\<close>.\<close>

fun py_getitem :: "json \<Rightarrow> string \<Rightarrow> exn + json" where
  "py_getitem (JObj kvs) k =
     (case map_of kvs k of
        None \<Rightarrow> Inl (Exn KeyError (sq k))
      | Some v \<Rightarrow> Inr v)"
| "py_getitem (JArr xs) k =
     Inl (Exn TypeError ''list indices must be integers or slices, not str'')"
| "py_getitem (JStr s) k =
     Inl (Exn TypeError (''string indices must be integers, not '' @ sq ''str''))"
| "py_getitem v k =
     Inl (Exn TypeError (sq (type_name v) @ '' object is not subscriptable''))"

text \<open>The items a \<^verbatim>\<open>for\<close> loop over \<^verbatim>\<open>v\<close> visits.\<close>

fun py_iter :: "json \<Rightarrow> exn + json list" where
  "py_iter (JArr xs) = Inr xs"
| "py_iter (JStr s) = Inr (map (\<lambda>c. JStr [c]) s)"
| "py_iter (JObj kvs) = Inr (map (\<lambda>kv. JStr (fst kv)) kvs)"
| "py_iter v = Inl (Exn TypeError (sq (type_name v) @ '' object is not iterable''))"

text \<open>
  \<^verbatim>\<open>v + s\<close> for a \<^verbatim>\<open>str\<close> \<open>s\<close>, as in \<^verbatim>\<open>expression_name + '.obj'\<close>:
  concatenation when \<open>v\<close> is a \<^verbatim>\<open>str\<close>, a \<^verbatim>\<open>TypeError\<close> otherwise.
\<close>

fun py_add_str :: "json \<Rightarrow> string \<Rightarrow> exn + string" where
  "py_add_str (JStr a) s = Inr (a @ s)"
| "py_add_str (JArr xs) s =
     Inl (Exn TypeError (''can only concatenate list (not '' @ dq ''str'' @ '') to list''))"
| "py_add_str v s =
     Inl (Exn TypeError (''unsupported operand type(s) for +: '' @ sq (type_name v)
                           @ '' and '' @ sq ''str''))"

subsection \<open>The host: scene, file system, importers\<close>

type_synonym obj = nat

text \<open>
  The part of the Blender scene the loader reads and writes: object names,
  \<^verbatim>\<open>bpy.context.selected_objects\<close> and the active object of the view layer.
\<close>

record scene =
  obj_name :: "obj \<rightharpoonup> string"
  selected_objects :: "obj list"
  active :: "obj option"

datatype op_status = FINISHED | CANCELLED

type_synonym importer = "string \<Rightarrow> scene \<Rightarrow> (exn + op_status) \<times> scene"

text \<open>
  What the loader calls. An importer that is \<open>None\<close> is an operator the
  \<^verbatim>\<open>hasattr\<close> test does not find. \<^verbatim>\<open>json_load\<close> stands for opening the file and
  \<^verbatim>\<open>json.load\<close> on it. The shape operators act on the scene.
\<close>

record host =
  isdir :: "string \<Rightarrow> bool"
  path_exists :: "string \<Rightarrow> bool"
  json_load :: "string \<Rightarrow> exn + json"
  wm_obj_import :: "importer option"
  import_scene_obj :: "importer option"
  join_shapes :: "scene \<Rightarrow> scene"
  delete_selected :: "scene \<Rightarrow> scene"

datatype level = INFO | WARNING | ERROR

text \<open>
  The state the loader runs in: the scene, the log records of level INFO and above in
  the order emitted, the file paths handed to \<^verbatim>\<open>import_obj\<close> and the paths
  tested with \<^verbatim>\<open>os.path.exists\<close>, both in call order.
\<close>

record world =
  bpy :: scene
  log :: "(level \<times> string) list"
  import_calls :: "string list"
  exists_calls :: "string list"

definition logger :: "level \<Rightarrow> string \<Rightarrow> world \<Rightarrow> world" where
  "logger l m w = w\<lparr>log := log w @ [(l, m)]\<rparr>"

definition os_path_exists :: "host \<Rightarrow> string \<Rightarrow> world \<Rightarrow> bool \<times> world" where
  "os_path_exists h p w = (path_exists h p, w\<lparr>exists_calls := exists_calls w @ [p]\<rparr>)"

text \<open>\<^verbatim>\<open>o.name = n\<close>\<close>

definition set_name :: "obj \<Rightarrow> string \<Rightarrow> world \<Rightarrow> world" where
  "set_name ob n w = w\<lparr>bpy := (bpy w)\<lparr>obj_name := (obj_name (bpy w))(ob \<mapsto> n)\<rparr>\<rparr>"

text \<open>\<^verbatim>\<open>o.select_set(True)\<close>\<close>

definition select_set :: "obj \<Rightarrow> world \<Rightarrow> world" where
  "select_set ob w =
     w\<lparr>bpy := (bpy w)\<lparr>selected_objects :=
          (if ob \<in> set (selected_objects (bpy w)) then selected_objects (bpy w)
           else selected_objects (bpy w) @ [ob])\<rparr>\<rparr>"

subsection \<open>\<^verbatim>\<open>import_obj\<close> (lines 16-31)\<close>

definition import_obj :: "host \<Rightarrow> string \<Rightarrow> world \<Rightarrow> (exn + op_status) \<times> world" where
  "import_obj h filepath w =
     (let w1 = w\<lparr>import_calls := import_calls w @ [filepath]\<rparr> in
      case wm_obj_import h of
        Some imp \<Rightarrow> (case imp filepath (bpy w1) of (r, sc) \<Rightarrow> (r, w1\<lparr>bpy := sc\<rparr>))
      | None \<Rightarrow>
          (case import_scene_obj h of
             Some imp \<Rightarrow> (case imp filepath (bpy w1) of (r, sc) \<Rightarrow> (r, w1\<lparr>bpy := sc\<rparr>))
           | None \<Rightarrow> (Inl (Exn ImportError ''No OBJ importer found in Blender''), w1)))"

subsection \<open>\<^verbatim>\<open>loadICTFaceModel\<close> (lines 33-173)\<close>

definition face_model_name :: string where
  "face_model_name = ''ICTFaceModel''"

definition generic_neutral_filename :: string where
  "generic_neutral_filename = ''generic_neutral_mesh.obj''"

definition config_filename :: string where
  "config_filename = ''vertex_indices.json''"

text \<open>\<^verbatim>\<open>identity_morph_target_name.format(identity_num)\<close>\<close>

definition identity_morph_target_name :: "nat \<Rightarrow> string" where
  "identity_morph_target_name n = ''identity'' @ format_03d n"

text \<open>Lines 65-75: read the settings.\<close>

definition load_settings :: "host \<Rightarrow> string \<Rightarrow> world \<Rightarrow> (exn + json) \<times> world" where
  "load_settings h config_filepath w =
     (case json_load h config_filepath of
        Inl e \<Rightarrow>
          (if exn_class e = JSONDecodeError
           then (Inl (Exn ValueError (''Invalid JSON in config file: '' @ config_filepath)),
                 logger ERROR (''JSON error: '' @ str e)
                   (logger ERROR (''Invalid JSON in config file: '' @ config_filepath) w))
           else (Inl e, w))
      | Inr config \<Rightarrow>
          (if \<not> py_truthy config
           then (Inl (Exn ValueError ''Empty configuration file''),
                 logger ERROR ''Empty configuration file'' w)
           else (Inr config, w)))"

text \<open>Lines 78-96: import the neutral mesh; the result is the anchor object.\<close>

definition import_neutral :: "host \<Rightarrow> string \<Rightarrow> world \<Rightarrow> (exn + obj) \<times> world" where
  "import_neutral h generic_neutral_filepath w =
     (let handler = (\<lambda>e w'.
            (Inl (Exn ImportError (''Error importing neutral mesh: '' @ str e)),
             logger ERROR ''Import error details:''
               (logger ERROR (''Error importing neutral mesh: '' @ str e) w')))
      in
      case import_obj h generic_neutral_filepath
             (logger INFO (''Attempting to import neutral mesh: '' @ generic_neutral_filepath) w) of
        (Inl e, w1) \<Rightarrow> handler e w1
      | (Inr import_result, w1) \<Rightarrow>
          (case selected_objects (bpy w1) of
             [] \<Rightarrow> handler (Exn ImportError ''Failed to import neutral mesh'')
                     (logger ERROR ''No objects selected after import'' w1)
           | face_model_neutral_object # _ \<Rightarrow>
               (Inr face_model_neutral_object,
                logger INFO ''Successfully imported neutral mesh''
                  (set_name face_model_neutral_object face_model_name w1))))"

text \<open>
  The loop state: the names and the objects collected so far (\<^verbatim>\<open>expression_names\<close>,
  \<^verbatim>\<open>expression_models\<close>, or the identity ones) and the world.
\<close>

type_synonym collected = "(string list \<times> obj list) \<times> world"

text \<open>
  Lines 102-123: the body of the expression loop for one item. \<open>Inl\<close> is an
  exception that leaves the loop (and the function), with the world at that point; every
  other path goes on to the next item. The second equation of \<open>expression_body\<close>
  is for an item that is not a \<^verbatim>\<open>str\<close>, where line 102 raises.
\<close>

definition expression_import ::
    "host \<Rightarrow> string \<Rightarrow> string \<Rightarrow> string \<Rightarrow> collected \<Rightarrow> collected" where
  "expression_import h expression_name filename filepath st =
     (case st of ((expression_names, expression_models), w) \<Rightarrow>
      case os_path_exists h filepath w of (found, w1) \<Rightarrow>
        if \<not> found
        then ((expression_names, expression_models),
              logger WARNING (''Expression morph target not found: '' @ filepath) w1)
        else
          (case import_obj h filepath
                  (logger INFO (''Reading expression morph target: '' @ expression_name) w1) of
             (Inl e, w2) \<Rightarrow>
               ((expression_names, expression_models),
                logger ERROR (''Error importing expression '' @ expression_name
                               @ '': '' @ str e) w2)
           | (Inr import_result, w2) \<Rightarrow>
               (case selected_objects (bpy w2) of
                  [] \<Rightarrow>
                    ((expression_names, expression_models),
                     logger WARNING (''Failed to import expression '' @ expression_name) w2)
                | imported_object # rest \<Rightarrow>
                    ((expression_names @ [expression_name],
                      expression_models @ [imported_object]),
                     set_name imported_object expression_name w2))))"

fun expression_body ::
    "host \<Rightarrow> string \<Rightarrow> json \<Rightarrow> collected \<Rightarrow> exn \<times> world + collected" where
  "expression_body h folderpath (JStr expression_name) st =
     (let filename = expression_name @ ''.obj'';
          filepath = path_join folderpath filename
      in Inr (expression_import h expression_name filename filepath st))"
| "expression_body h folderpath expression_name st =
     (case py_add_str expression_name ''.obj'' of
        Inl e \<Rightarrow> Inl (e, snd st)
      | Inr filename \<Rightarrow> Inr st)"

fun expression_items ::
    "host \<Rightarrow> string \<Rightarrow> json list \<Rightarrow> collected \<Rightarrow> exn \<times> world + collected" where
  "expression_items h folderpath [] st = Inr st"
| "expression_items h folderpath (item # items) st =
     (case expression_body h folderpath item st of
        Inl ew \<Rightarrow> Inl ew
      | Inr st' \<Rightarrow> expression_items h folderpath items st')"

text \<open>Lines 99-123: the expression loop over \<^verbatim>\<open>config['expressions']\<close>.\<close>

definition expression_loop ::
    "host \<Rightarrow> string \<Rightarrow> json \<Rightarrow> world \<Rightarrow> exn \<times> world + collected" where
  "expression_loop h folderpath config w =
     (case py_getitem config ''expressions'' of
        Inl e \<Rightarrow> Inl (e, w)
      | Inr v \<Rightarrow>
          (case py_iter v of
             Inl e \<Rightarrow> Inl (e, w)
           | Inr items \<Rightarrow> expression_items h folderpath items (([], []), w)))"

text \<open>
  Lines 129-155: the body of the identity loop for one index: it leaves the loop
  (\<^verbatim>\<open>break\<close>) or goes on to the next index.
\<close>

datatype flow = Break | Continue

definition identity_body :: "host \<Rightarrow> string \<Rightarrow> nat \<Rightarrow> collected \<Rightarrow> flow \<times> collected" where
  "identity_body h folderpath identity_num st =
     (case st of ((identity_names, identity_models), w) \<Rightarrow>
      let identity_name = identity_morph_target_name identity_num;
          identity_filename = identity_name @ ''.obj'';
          filepath = path_join folderpath identity_filename
      in
      case os_path_exists h filepath w of (found, w1) \<Rightarrow>
        if \<not> found
        then (Break, ((identity_names, identity_models),
                logger INFO
                  (if identity_num = 0 then ''No identity morph targets found''
                   else ''No more identity morph targets found after ''
                          @ dec_digits (identity_num - 1)) w1))
        else
          (case import_obj h filepath
                  (logger INFO (''Reading identity morph target: '' @ identity_name) w1) of
             (Inl e, w2) \<Rightarrow>
               (Break, ((identity_names, identity_models),
                  logger ERROR (''Error loading identity morph target '' @ identity_name
                                 @ '': '' @ str e) w2))
           | (Inr import_result, w2) \<Rightarrow>
               (case selected_objects (bpy w2) of
                  [] \<Rightarrow>
                    (Continue, ((identity_names, identity_models),
                       logger WARNING (''Failed to import identity '' @ identity_name) w2))
                | imported_object # rest \<Rightarrow>
                    (Continue, ((identity_names @ [identity_name],
                                 identity_models @ [imported_object]),
                       set_name imported_object identity_name w2)))))"

text \<open>
  Lines 128-155: the loop over \<^verbatim>\<open>itertools.count()\<close>, from \<open>identity_num\<close> on.
  The loop has no bound: \<open>None\<close> is a run that never leaves it.
\<close>

partial_function (option) identity_loop ::
    "host \<Rightarrow> string \<Rightarrow> nat \<Rightarrow> collected \<Rightarrow> collected option" where
  "identity_loop h folderpath identity_num st =
     (case identity_body h folderpath identity_num st of
        (Break, st') \<Rightarrow> Some st'
      | (Continue, st') \<Rightarrow> identity_loop h folderpath (Suc identity_num) st')"

declare identity_loop.simps [code]

text \<open>Lines 160-171: select the shape models, make the face active, join, delete.\<close>

definition assemble :: "host \<Rightarrow> obj \<Rightarrow> obj list \<Rightarrow> obj list \<Rightarrow> world \<Rightarrow> world" where
  "assemble h face_model_neutral_object expression_models identity_models w =
     (let w1 = fold select_set expression_models w;
          w2 = fold select_set identity_models w1;
          w3 = w2\<lparr>bpy := (bpy w2)\<lparr>active := Some face_model_neutral_object\<rparr>\<rparr>;
          w4 = w3\<lparr>bpy := join_shapes h (bpy w3)\<rparr>
      in w4\<lparr>bpy := delete_selected h (bpy w4)\<rparr>)"

text \<open>Lines 99-173: the two loops, the test for morph targets, the assembly.\<close>

definition load_morph_targets ::
    "host \<Rightarrow> string \<Rightarrow> json \<Rightarrow> obj \<Rightarrow> world \<Rightarrow> ((exn + nat \<times> nat) \<times> world) option" where
  "load_morph_targets h folderpath config face_model_neutral_object w =
     (case expression_loop h folderpath config w of
        Inl (e, w1) \<Rightarrow> Some (Inl e, w1)
      | Inr ((expression_names, expression_models), w1) \<Rightarrow>
          (case identity_loop h folderpath 0 (([], []), w1) of
             None \<Rightarrow> None
           | Some ((identity_names, identity_models), w2) \<Rightarrow>
               if expression_models = [] \<and> identity_models = []
               then Some (Inl (Exn ValueError ''No valid morph targets found in directory''), w2)
               else Some (Inr (length expression_models, length identity_models),
                          assemble h face_model_neutral_object
                            expression_models identity_models w2)))"

text \<open>
  Lines 34-96: the checks of the directory and of the two required files, the settings,
  the neutral mesh. The result is the configuration and the anchor object.
\<close>

definition prepare :: "host \<Rightarrow> string \<Rightarrow> world \<Rightarrow> (exn + json \<times> obj) \<times> world" where
  "prepare h folderpath w =
     (let w0 = logger INFO (''Starting model load from directory: '' @ folderpath) w in
      if \<not> isdir h folderpath
      then (Inl (Exn ValueError (''Invalid directory path: '' @ folderpath)),
            logger ERROR (''Invalid directory path: '' @ folderpath) w0)
      else
        let generic_neutral_filepath = path_join folderpath generic_neutral_filename;
            config_filepath = path_join folderpath config_filename
        in
        case os_path_exists h generic_neutral_filepath w0 of (found_neutral, w1) \<Rightarrow>
        if \<not> found_neutral
        then (Inl (Exn FileNotFoundError
                     (''Cannot find neutral mesh: '' @ generic_neutral_filepath)),
              logger ERROR (''Cannot find neutral mesh: '' @ generic_neutral_filepath) w1)
        else
          case os_path_exists h config_filepath w1 of (found_config, w2) \<Rightarrow>
          if \<not> found_config
          then (Inl (Exn FileNotFoundError
                       (''Cannot find config file: '' @ config_filepath)),
                logger ERROR (''Cannot find config file: '' @ config_filepath) w2)
          else
            (case load_settings h config_filepath w2 of
               (Inl e, w3) \<Rightarrow> (Inl e, w3)
             | (Inr config, w3) \<Rightarrow>
                 (case import_neutral h generic_neutral_filepath w3 of
                    (Inl e, w4) \<Rightarrow> (Inl e, w4)
                  | (Inr face_model_neutral_object, w4) \<Rightarrow>
                      (Inr (config, face_model_neutral_object), w4))))"

text \<open>
  The whole function. The result is \<open>None\<close> when the identity loop never ends,
  otherwise the exception raised or the pair returned, with the world left behind.
\<close>

definition loadICTFaceModel ::
    "host \<Rightarrow> string \<Rightarrow> world \<Rightarrow> ((exn + nat \<times> nat) \<times> world) option" where
  "loadICTFaceModel h folderpath w =
     (case prepare h folderpath w of
        (Inl e, w') \<Rightarrow> Some (Inl e, w')
      | (Inr (config, face_model_neutral_object), w') \<Rightarrow>
          load_morph_targets h folderpath config face_model_neutral_object w')"

subsection \<open>Names used in the statements\<close>

text \<open>The file the expression loop looks for, and the one the identity loop looks for.\<close>

definition expression_filepath :: "string \<Rightarrow> string \<Rightarrow> string" where
  "expression_filepath folderpath expression_name =
     path_join folderpath (expression_name @ ''.obj'')"

definition identity_filepath :: "string \<Rightarrow> nat \<Rightarrow> string" where
  "identity_filepath folderpath identity_num =
     path_join folderpath (identity_morph_target_name identity_num @ ''.obj'')"

text \<open>
  An import yields an object: \<^verbatim>\<open>import_obj\<close> returns and leaves a non-empty selection.
\<close>

definition import_yields :: "host \<Rightarrow> string \<Rightarrow> world \<Rightarrow> bool" where
  "import_yields h filepath w =
     (case import_obj h filepath w of
        (Inl e, w') \<Rightarrow> False
      | (Inr r, w') \<Rightarrow> selected_objects (bpy w') \<noteq> [])"

text \<open>The value of a string of decimal digits.\<close>

definition digits_val :: "string \<Rightarrow> nat" where
  "digits_val s = foldl (\<lambda>a c. 10 * a + (of_char c - 48)) 0 s"

subsection \<open>A host for examples\<close>

text \<open>
  A directory \<^verbatim>\<open>/face\<close> holding the listed files. An importer reads a table: a file
  mapped to \<open>Some ob\<close> imports as the object \<open>ob\<close>, which it selects alone; a file
  mapped to \<open>None\<close> imports as nothing and clears the selection; a file not in the
  table makes the importer raise.
\<close>

definition table_importer :: "(string \<times> obj option) list \<Rightarrow> importer" where
  "table_importer table filepath sc =
     (case map_of table filepath of
        None \<Rightarrow> (Inl (Exn RuntimeError (''Error: cannot read '' @ filepath)), sc)
      | Some None \<Rightarrow> (Inr FINISHED, sc\<lparr>selected_objects := []\<rparr>)
      | Some (Some ob) \<Rightarrow>
          (Inr FINISHED, sc\<lparr>obj_name := (obj_name sc)(ob \<mapsto> filepath),
                                selected_objects := [ob]\<rparr>))"

definition face_host ::
    "string list \<Rightarrow> exn + json \<Rightarrow> (string \<times> obj option) list \<Rightarrow> host" where
  "face_host files config table =
     \<lparr>isdir = (\<lambda>p. p = ''/face''),
      path_exists = (\<lambda>p. p \<in> set files),
      json_load = (\<lambda>p. config),
      wm_obj_import = Some (table_importer table),
      import_scene_obj = None,
      join_shapes = (\<lambda>sc. sc),
      delete_selected = (\<lambda>sc. sc\<lparr>selected_objects := []\<rparr>)\<rparr>"

definition empty_world :: world where
  "empty_world =
     \<lparr>bpy = \<lparr>obj_name = Map.empty, selected_objects = [], active = None\<rparr>,
      log = [], import_calls = [], exists_calls = []\<rparr>"

text \<open>
  The directory of the example in the specification: identity files 0, 1 and 3, none
  for 2, and one expression.
\<close>

definition gap_host :: host where
  "gap_host =
     face_host
       [''/face/generic_neutral_mesh.obj'', ''/face/vertex_indices.json'', ''/face/smile.obj'',
        ''/face/identity000.obj'', ''/face/identity001.obj'', ''/face/identity003.obj'']
       (Inr (JObj [(''expressions'', JArr [JStr ''smile''])]))
       [(''/face/generic_neutral_mesh.obj'', Some 0), (''/face/smile.obj'', Some 1),
        (''/face/identity000.obj'', Some 2), (''/face/identity001.obj'', Some 3),
        (''/face/identity003.obj'', Some 4)]"

text \<open>
  A directory with \<^verbatim>\<open>identity000.obj\<close> and no \<^verbatim>\<open>identity001.obj\<close>, where the
  importer cannot read \<^verbatim>\<open>identity000.obj\<close> and raises.
\<close>

definition unreadable_identity_host :: host where
  "unreadable_identity_host =
     face_host
       [''/face/generic_neutral_mesh.obj'', ''/face/vertex_indices.json'', ''/face/smile.obj'',
        ''/face/identity000.obj'']
       (Inr (JObj [(''expressions'', JArr [JStr ''smile''])]))
       [(''/face/generic_neutral_mesh.obj'', Some 0), (''/face/smile.obj'', Some 1)]"

text \<open>
  The scenario of the specification: two expressions declared, the file of one of
  them present, one identity file.
\<close>

definition scenario_host :: host where
  "scenario_host =
     face_host
       [''/face/generic_neutral_mesh.obj'', ''/face/vertex_indices.json'', ''/face/smile.obj'',
        ''/face/identity000.obj'']
       (Inr (JObj [(''expressions'', JArr [JStr ''smile'', JStr ''frown''])]))
       [(''/face/generic_neutral_mesh.obj'', Some 0), (''/face/smile.obj'', Some 1),
        (''/face/identity000.obj'', Some 2)]"

text \<open>A directory with the two required files and no morph target at all.\<close>

definition bare_host :: host where
  "bare_host =
     face_host
       [''/face/generic_neutral_mesh.obj'', ''/face/vertex_indices.json'']
       (Inr (JObj [(''expressions'', JArr [JStr ''smile''])]))
       [(''/face/generic_neutral_mesh.obj'', Some 0)]"

text \<open>
  A directory where the importer cannot read \<^verbatim>\<open>smile.obj\<close> nor
  \<^verbatim>\<open>identity000.obj\<close>, and reads \<^verbatim>\<open>frown.obj\<close>.
\<close>

definition failing_imports_host :: host where
  "failing_imports_host =
     face_host
       [''/face/generic_neutral_mesh.obj'', ''/face/vertex_indices.json'', ''/face/smile.obj'',
        ''/face/frown.obj'', ''/face/identity000.obj'']
       (Inr (JObj [(''expressions'', JArr [JStr ''smile'', JStr ''frown''])]))
       [(''/face/generic_neutral_mesh.obj'', Some 0), (''/face/frown.obj'', Some 1)]"

text \<open>A settings file that is a non-empty object without the key \<^verbatim>\<open>expressions\<close>.\<close>

definition no_expressions_key_host :: host where
  "no_expressions_key_host =
     face_host
       [''/face/generic_neutral_mesh.obj'', ''/face/vertex_indices.json'', ''/face/smile.obj'']
       (Inr (JObj [(''version'', JInt 1)]))
       [(''/face/generic_neutral_mesh.obj'', Some 0), (''/face/smile.obj'', Some 1)]"




section \<open>Properties\<close>

subsection \<open>What a call of \<^verbatim>\<open>import_obj\<close> leaves in the trace\<close>

lemma import_obj_trace:
  "import_calls (snd (import_obj h p w)) = import_calls w @ [p]"
  "log (snd (import_obj h p w)) = log w"
  "exists_calls (snd (import_obj h p w)) = exists_calls w"
  by (simp_all add: import_obj_def Let_def split: option.splits prod.splits)

lemma import_obj_scene:
  assumes "bpy w' = bpy w"
  shows "fst (import_obj h p w') = fst (import_obj h p w)"
    and "bpy (snd (import_obj h p w')) = bpy (snd (import_obj h p w))"
  using assms
  by (simp_all add: import_obj_def Let_def split: option.splits prod.splits)

lemma import_yields_scene:
  assumes "bpy w' = bpy w"
  shows "import_yields h p w' = import_yields h p w"
proof -
  obtain x wi where a: "import_obj h p w = (x, wi)" by (metis prod.collapse)
  obtain x' wi' where b: "import_obj h p w' = (x', wi')" by (metis prod.collapse)
  from import_obj_scene [OF assms, of h p] a b have "x' = x" "bpy wi' = bpy wi" by simp_all
  with a b show ?thesis by (cases x) (simp_all add: import_yields_def)
qed

lemma set_name_trace [simp]:
  "import_calls (set_name ob n w) = import_calls w"
  "exists_calls (set_name ob n w) = exists_calls w"
  "log (set_name ob n w) = log w"
  by (simp_all add: set_name_def)

lemma logger_trace [simp]:
  "import_calls (logger l m w) = import_calls w"
  "exists_calls (logger l m w) = exists_calls w"
  "bpy (logger l m w) = bpy w"
  "log (logger l m w) = log w @ [(l, m)]"
  by (simp_all add: logger_def)

subsection \<open>Decimal formatting is injective\<close>

lemma digits_val_snoc: "digits_val (s @ [c]) = 10 * digits_val s + (of_char c - 48)"
  by (simp add: digits_val_def)

lemma of_char_digit_char: "d < 10 \<Longrightarrow> of_char (digit_char d) = 48 + d"
  by (simp add: digit_char_def)

lemma digits_val_dec_digits: "digits_val (dec_digits n) = n"
proof (induction n rule: dec_digits.induct)
  case (1 n)
  show ?case
  proof (cases "n < 10")
    case True
    then show ?thesis
      by (subst dec_digits.simps) (simp add: digits_val_def of_char_digit_char)
  next
    case False
    then have "digits_val (dec_digits (n div 10)) = n div 10" using 1 by simp
    with False show ?thesis
      by (subst dec_digits.simps) (simp add: digits_val_snoc of_char_digit_char)
  qed
qed

lemma digits_val_zeros: "digits_val (replicate k CHR ''0'' @ s) = digits_val s"
  by (induction k) (simp_all add: digits_val_def)

lemma digits_val_format_03d: "digits_val (format_03d n) = n"
  by (simp add: format_03d_def digits_val_zeros digits_val_dec_digits)

lemma identity_filepath_inj:
  assumes "identity_filepath f m = identity_filepath f n"
  shows "m = n"
proof -
  have "format_03d m = format_03d n"
    using assms
    by (simp add: identity_filepath_def identity_morph_target_name_def path_join_def
          split: if_splits)
  then have "digits_val (format_03d m) = digits_val (format_03d n)" by simp
  then show ?thesis by (simp add: digits_val_format_03d)
qed

subsection \<open>The identity loop\<close>

lemma identity_body_cases:
  "identity_body h f n ((ns, ms), w) =
     (if \<not> path_exists h (identity_filepath f n)
      then (Break, ((ns, ms),
              logger INFO
                (if n = 0 then ''No identity morph targets found''
                 else ''No more identity morph targets found after '' @ dec_digits (n - 1))
                (w\<lparr>exists_calls := exists_calls w @ [identity_filepath f n]\<rparr>)))
      else
        (case import_obj h (identity_filepath f n)
                (logger INFO (''Reading identity morph target: '' @ identity_morph_target_name n)
                   (w\<lparr>exists_calls := exists_calls w @ [identity_filepath f n]\<rparr>)) of
           (Inl e, w2) \<Rightarrow>
             (Break, ((ns, ms),
                logger ERROR (''Error loading identity morph target ''
                               @ identity_morph_target_name n @ '': '' @ str e) w2))
         | (Inr r, w2) \<Rightarrow>
             (case selected_objects (bpy w2) of
                [] \<Rightarrow> (Continue, ((ns, ms),
                         logger WARNING (''Failed to import identity ''
                                          @ identity_morph_target_name n) w2))
              | ob # rest \<Rightarrow>
                  (Continue, ((ns @ [identity_morph_target_name n], ms @ [ob]),
                     set_name ob (identity_morph_target_name n) w2)))))"
  by (simp add: identity_body_def identity_filepath_def os_path_exists_def Let_def)

lemma identity_loop_absent:
  assumes "\<not> path_exists h (identity_filepath f n)"
  shows "identity_loop h f n ((ns, ms), w) =
           Some ((ns, ms),
              logger INFO
                (if n = 0 then ''No identity morph targets found''
                 else ''No more identity morph targets found after '' @ dec_digits (n - 1))
                (w\<lparr>exists_calls := exists_calls w @ [identity_filepath f n]\<rparr>))"
  using assms by (subst identity_loop.simps) (simp add: identity_body_cases)

lemma identity_loop_returns:
  assumes "\<not> path_exists h (identity_filepath f k)" and "n \<le> k"
  shows "\<exists>r. identity_loop h f n st = Some r"
  using assms
proof (induction "k - n" arbitrary: n st)
  case 0
  then have "n = k" by simp
  obtain ns ms w where st: "st = ((ns, ms), w)" by (metis prod.collapse)
  show ?case using 0 \<open>n = k\<close> unfolding st by (simp add: identity_loop_absent)
next
  case (Suc d)
  then have step: "\<exists>r. identity_loop h f (Suc n) st' = Some r" for st'
    by simp
  obtain fl st' where "identity_body h f n st = (fl, st')"
    by (metis prod.collapse)
  then show ?case using step [of st']
    by (subst identity_loop.simps) (cases fl; simp)
qed

lemma import_yieldsD:
  assumes "import_yields h p w"
  obtains r w2 ob rest where "import_obj h p w = (Inr r, w2)"
    and "selected_objects (bpy w2) = ob # rest"
proof -
  obtain x w2 where eq: "import_obj h p w = (x, w2)" by (metis prod.collapse)
  with assms obtain r where "x = Inr r" and "selected_objects (bpy w2) \<noteq> []"
    by (cases x) (simp_all add: import_yields_def)
  then show thesis using that eq by (cases "selected_objects (bpy w2)") auto
qed

lemma identity_loop_yields_step:
  assumes ex: "path_exists h (identity_filepath f n)"
    and imp: "\<forall>w. import_yields h (identity_filepath f n) w"
  shows "\<exists>ob w2. identity_loop h f n ((ns, ms), w) =
            identity_loop h f (Suc n) ((ns @ [identity_morph_target_name n], ms @ [ob]), w2)
          \<and> exists_calls w2 = exists_calls w @ [identity_filepath f n]
          \<and> import_calls w2 = import_calls w @ [identity_filepath f n]"
proof -
  let ?w1 = "logger INFO (''Reading identity morph target: '' @ identity_morph_target_name n)
               (w\<lparr>exists_calls := exists_calls w @ [identity_filepath f n]\<rparr>)"
  from imp have "import_yields h (identity_filepath f n) ?w1" by blast
  then obtain r w2 ob rest where
    io: "import_obj h (identity_filepath f n) ?w1 = (Inr r, w2)"
    and sel: "selected_objects (bpy w2) = ob # rest"
    by (rule import_yieldsD)
  have tr: "exists_calls w2 = exists_calls w @ [identity_filepath f n]"
    "import_calls w2 = import_calls w @ [identity_filepath f n]"
    using import_obj_trace(3) [of h "identity_filepath f n" ?w1]
      import_obj_trace(1) [of h "identity_filepath f n" ?w1] io by simp_all
  have "identity_loop h f n ((ns, ms), w) =
          identity_loop h f (Suc n) ((ns @ [identity_morph_target_name n], ms @ [ob]),
             set_name ob (identity_morph_target_name n) w2)"
    using ex io sel by (subst identity_loop.simps) (simp add: identity_body_cases)
  then show ?thesis using tr by (intro exI [of _ ob] exI [of _ "set_name ob (identity_morph_target_name n) w2"]) simp
qed

lemma identity_loop_contiguous:
  assumes "\<forall>i. n \<le> i \<and> i < k \<longrightarrow>
             path_exists h (identity_filepath f i) \<and> (\<forall>w. import_yields h (identity_filepath f i) w)"
    and "\<not> path_exists h (identity_filepath f k)" and "n \<le> k"
  shows "\<exists>ms' w'. identity_loop h f n ((ns, ms), w) =
            Some ((ns @ map identity_morph_target_name [n..<k], ms @ ms'), w')
          \<and> length ms' = k - n
          \<and> exists_calls w' = exists_calls w @ map (identity_filepath f) [n..<Suc k]
          \<and> import_calls w' = import_calls w @ map (identity_filepath f) [n..<k]"
  using assms
proof (induction "k - n" arbitrary: n ns ms w)
  case 0
  then have "n = k" by simp
  with 0 show ?case by (simp add: identity_loop_absent)
next
  case (Suc d)
  then have "n < k" by simp
  with Suc.prems obtain ob w2 where
    step: "identity_loop h f n ((ns, ms), w) =
             identity_loop h f (Suc n) ((ns @ [identity_morph_target_name n], ms @ [ob]), w2)"
    and tr: "exists_calls w2 = exists_calls w @ [identity_filepath f n]"
      "import_calls w2 = import_calls w @ [identity_filepath f n]"
    using identity_loop_yields_step [of h f n ns ms w] by auto
  have "d = k - Suc n" using Suc.hyps(2) by simp
  moreover have "\<forall>i. Suc n \<le> i \<and> i < k \<longrightarrow>
       path_exists h (identity_filepath f i) \<and> (\<forall>w. import_yields h (identity_filepath f i) w)"
    using Suc.prems(1) by simp
  moreover have "Suc n \<le> k" using \<open>n < k\<close> by simp
  ultimately obtain ms' w' where
    ih: "identity_loop h f (Suc n) ((ns @ [identity_morph_target_name n], ms @ [ob]), w2) =
           Some (((ns @ [identity_morph_target_name n]) @ map identity_morph_target_name [Suc n..<k],
                  (ms @ [ob]) @ ms'), w')"
    and len: "length ms' = k - Suc n"
    and tr': "exists_calls w' = exists_calls w2 @ map (identity_filepath f) [Suc n..<Suc k]"
      "import_calls w' = import_calls w2 @ map (identity_filepath f) [Suc n..<k]"
    using Suc.hyps(1) [of "Suc n" "ns @ [identity_morph_target_name n]" "ms @ [ob]" w2] Suc.prems(2)
    by blast
  have upt: "[n..<k] = n # [Suc n..<k]" "[n..<Suc k] = n # [Suc n..<Suc k]"
    using \<open>n < k\<close> by (simp_all add: upt_conv_Cons)
  show ?case
    apply (rule exI [of _ "ob # ms'"], rule exI [of _ w'])
    using step ih len tr tr' \<open>n < k\<close> unfolding upt by simp
qed

lemma identity_loop_raises:
  assumes "path_exists h (identity_filepath f n)"
    and "import_obj h (identity_filepath f n)
           (logger INFO (''Reading identity morph target: '' @ identity_morph_target_name n)
              (w\<lparr>exists_calls := exists_calls w @ [identity_filepath f n]\<rparr>)) = (Inl e, w2)"
  shows "identity_loop h f n ((ns, ms), w) =
           Some ((ns, ms),
                 logger ERROR (''Error loading identity morph target ''
                                @ identity_morph_target_name n @ '': '' @ str e) w2)"
  using assms by (subst identity_loop.simps) (simp add: identity_body_cases)

subsection \<open>The expression loop\<close>

lemma py_add_str_not_str:
  assumes "\<forall>a. v \<noteq> JStr a"
  shows "\<exists>m. py_add_str v s = Inl (Exn TypeError m)"
  using assms by (cases v) simp_all

lemma expression_import_cases:
  "expression_import h n fn p ((ns, ms), w) =
     (if \<not> path_exists h p
      then ((ns, ms),
            logger WARNING (''Expression morph target not found: '' @ p)
              (w\<lparr>exists_calls := exists_calls w @ [p]\<rparr>))
      else
        (case import_obj h p
                (logger INFO (''Reading expression morph target: '' @ n)
                   (w\<lparr>exists_calls := exists_calls w @ [p]\<rparr>)) of
           (Inl e, w2) \<Rightarrow>
             ((ns, ms),
              logger ERROR (''Error importing expression '' @ n @ '': '' @ str e) w2)
         | (Inr r, w2) \<Rightarrow>
             (case selected_objects (bpy w2) of
                [] \<Rightarrow> ((ns, ms), logger WARNING (''Failed to import expression '' @ n) w2)
              | ob # rest \<Rightarrow> ((ns @ [n], ms @ [ob]), set_name ob n w2))))"
  by (simp add: expression_import_def os_path_exists_def)

lemma expression_body_JStr:
  "expression_body h f (JStr n) st =
     Inr (expression_import h n (n @ ''.obj'') (expression_filepath f n) st)"
  by (simp add: expression_filepath_def Let_def)

lemma expression_body_InrD:
  assumes "expression_body h f item st = Inr st'"
  obtains n where "item = JStr n"
    and "st' = expression_import h n (n @ ''.obj'') (expression_filepath f n) st"
  using assms by (cases item) (simp_all add: expression_filepath_def Let_def)

text \<open>One item either adds its name and one object, or adds nothing.\<close>

lemma expression_import_grows:
  "\<exists>w'. expression_import h n fn p ((ns, ms), w) = ((ns, ms), w')
     \<or> (\<exists>ob. expression_import h n fn p ((ns, ms), w) = ((ns @ [n], ms @ [ob]), w'))"
  by (auto simp add: expression_import_cases split: prod.splits sum.splits list.splits)

lemma expression_import_static:
  assumes "path_exists h p \<longrightarrow> (\<forall>w. import_yields h p w = ok)"
  shows "\<exists>ms' w'. expression_import h n fn p ((ns, ms), w) =
            ((ns @ (if path_exists h p \<and> ok then [n] else []), ms @ ms'), w')
          \<and> length ms' = (if path_exists h p \<and> ok then 1 else 0)"
proof (cases "path_exists h p")
  case False
  then show ?thesis by (simp add: expression_import_cases)
next
  case True
  let ?w1 = "logger INFO (''Reading expression morph target: '' @ n)
               (w\<lparr>exists_calls := exists_calls w @ [p]\<rparr>)"
  from True assms have ok: "import_yields h p ?w1 = ok" by blast
  obtain x w2 where io: "import_obj h p ?w1 = (x, w2)" by (metis prod.collapse)
  show ?thesis
  proof (cases ok)
    case True
    with ok io obtain r ob rest where "x = Inr r" "selected_objects (bpy w2) = ob # rest"
      by (cases x; cases "selected_objects (bpy w2)") (simp_all add: import_yields_def)
    with io True \<open>path_exists h p\<close> show ?thesis
      by (simp add: expression_import_cases)
  next
    case False
    with ok io have "(\<exists>e. x = Inl e) \<or> (\<exists>r. x = Inr r \<and> selected_objects (bpy w2) = [])"
      by (cases x) (simp_all add: import_yields_def)
    with io False \<open>path_exists h p\<close> show ?thesis
      by (auto simp add: expression_import_cases)
  qed
qed

lemma expression_items_static:
  assumes "\<forall>n\<in>set names. path_exists h (expression_filepath f n) \<longrightarrow>
             (\<forall>w. import_yields h (expression_filepath f n) w = ok n)"
  shows "\<exists>ms' w'. expression_items h f (map JStr names) ((ns, ms), w) =
            Inr ((ns @ filter (\<lambda>n. path_exists h (expression_filepath f n) \<and> ok n) names,
                  ms @ ms'), w')
          \<and> length ms' =
              length (filter (\<lambda>n. path_exists h (expression_filepath f n) \<and> ok n) names)"
  using assms
proof (induction names arbitrary: ns ms w)
  case Nil
  then show ?case by simp
next
  case (Cons n names)
  let ?good = "\<lambda>n. path_exists h (expression_filepath f n) \<and> ok n"
  from Cons.prems have "path_exists h (expression_filepath f n) \<longrightarrow>
      (\<forall>w. import_yields h (expression_filepath f n) w = ok n)" by simp
  then obtain ms1 w1 where
    one: "expression_import h n (n @ ''.obj'') (expression_filepath f n) ((ns, ms), w) =
            ((ns @ (if ?good n then [n] else []), ms @ ms1), w1)"
    and len1: "length ms1 = (if ?good n then 1 else 0)"
    using expression_import_static [of h "expression_filepath f n" "ok n" n "n @ ''.obj''" ns ms w]
    by blast
  from Cons.prems have "\<forall>n\<in>set names. path_exists h (expression_filepath f n) \<longrightarrow>
      (\<forall>w. import_yields h (expression_filepath f n) w = ok n)" by simp
  then obtain ms2 w2 where
    rest: "expression_items h f (map JStr names)
             ((ns @ (if ?good n then [n] else []), ms @ ms1), w1) =
           Inr (((ns @ (if ?good n then [n] else [])) @ filter ?good names, (ms @ ms1) @ ms2), w2)"
    and len2: "length ms2 = length (filter ?good names)"
    using Cons.IH [of "ns @ (if ?good n then [n] else [])" "ms @ ms1" w1] by blast
  show ?case
    apply (rule exI [of _ "ms1 @ ms2"], rule exI [of _ w2])
    using one rest len1 len2 by (simp add: expression_body_JStr del: expression_body.simps)
qed

lemma expression_items_subseq:
  assumes "expression_items h f items ((ns, ms), w) = Inr ((ns', ms'), w')"
  shows "\<exists>xs ys. ns' = ns @ xs \<and> ms' = ms @ ys \<and> length ys = length xs
           \<and> subseq (map JStr xs) items"
  using assms
proof (induction items arbitrary: ns ms w)
  case Nil
  then show ?case by simp
next
  case (Cons item items)
  from Cons.prems obtain st1 where
    b: "expression_body h f item ((ns, ms), w) = Inr st1"
    and r: "expression_items h f items st1 = Inr ((ns', ms'), w')"
    by (auto split: sum.splits)
  from b obtain n where item: "item = JStr n"
    and st1: "st1 = expression_import h n (n @ ''.obj'') (expression_filepath f n) ((ns, ms), w)"
    by (rule expression_body_InrD)
  from expression_import_grows [of h n "n @ ''.obj''" "expression_filepath f n" ns ms w]
  obtain w1 where "st1 = ((ns, ms), w1) \<or> (\<exists>ob. st1 = ((ns @ [n], ms @ [ob]), w1))"
    unfolding st1 by blast
  then show ?case
  proof
    assume "st1 = ((ns, ms), w1)"
    with r Cons.IH [of ns ms w1] obtain xs ys where
      "ns' = ns @ xs" "ms' = ms @ ys" "length ys = length xs" "subseq (map JStr xs) items"
      by blast
    then show ?thesis by (auto intro: subseq_Cons')
  next
    assume "\<exists>ob. st1 = ((ns @ [n], ms @ [ob]), w1)"
    then obtain ob where "st1 = ((ns @ [n], ms @ [ob]), w1)" by blast
    with r Cons.IH [of "ns @ [n]" "ms @ [ob]" w1] obtain xs ys where
      "ns' = (ns @ [n]) @ xs" "ms' = (ms @ [ob]) @ ys" "length ys = length xs"
      "subseq (map JStr xs) items"
      by blast
    then show ?thesis unfolding item
      by (intro exI [of _ "n # xs"] exI [of _ "ob # ys"]) simp
  qed
qed

lemma expression_items_raises:
  assumes "path_exists h (expression_filepath f n)"
    and "import_obj h (expression_filepath f n)
           (logger INFO (''Reading expression morph target: '' @ n)
              (w\<lparr>exists_calls := exists_calls w @ [expression_filepath f n]\<rparr>)) = (Inl e, w2)"
  shows "expression_items h f (JStr n # items) ((ns, ms), w) =
           expression_items h f items
             ((ns, ms), logger ERROR (''Error importing expression '' @ n @ '': '' @ str e) w2)"
  using assms
  by (simp add: expression_body_JStr expression_import_cases del: expression_body.simps)


lemma subseq_map_JStrD: "subseq (map JStr xs) (map JStr ys) \<Longrightarrow> subseq xs ys"
proof (induction ys arbitrary: xs)
  case Nil
  then have "map JStr xs = []" by (auto dest: list_emb_Nil2)
  then show ?case by simp
next
  case (Cons y ys)
  then show ?case by (cases xs) (auto simp add: subseq_Cons2_iff)
qed

subsection \<open>The function as the composition of its stages\<close>

lemma loadICTFaceModel_prepared:
  assumes "prepare h f w = (Inr (config, face), w4)"
  shows "loadICTFaceModel h f w = load_morph_targets h f config face w4"
  using assms by (simp add: loadICTFaceModel_def)

lemma load_morph_targets_result:
  assumes "expression_loop h f config w4 = Inr ((en, em), w5)"
    and "identity_loop h f 0 (([], []), w5) = Some ((inn, im), w6)"
  shows "load_morph_targets h f config face w4 =
           Some (if em = [] \<and> im = []
                 then (Inl (Exn ValueError ''No valid morph targets found in directory''), w6)
                 else (Inr (length em, length im), assemble h face em im w6))"
  using assms by (simp add: load_morph_targets_def)

lemma expression_items_strings:
  "\<exists>en em w'. expression_items h f (map JStr names) st = Inr ((en, em), w')"
proof (induction names arbitrary: st)
  case Nil
  show ?case by (cases st) auto
next
  case (Cons n names)
  show ?case using Cons [of "expression_import h n (n @ ''.obj'') (expression_filepath f n) st"]
    by (simp add: expression_body_JStr del: expression_body.simps)
qed

lemma expression_loop_strings:
  assumes "py_getitem config ''expressions'' = Inr (JArr (map JStr names))"
  shows "expression_loop h f config w =
           expression_items h f (map JStr names) (([], []), w)"
  using assms by (simp add: expression_loop_def)

lemma load_morph_targets_never_zero:
  "load_morph_targets h f config face w4 \<noteq> Some (Inr (0, 0), w')"
  by (auto simp add: load_morph_targets_def split: sum.splits prod.splits option.splits)

lemma loadICTFaceModel_never_zero:
  "loadICTFaceModel h f w \<noteq> Some (Inr (0, 0), w')"
  by (auto simp add: loadICTFaceModel_def load_morph_targets_never_zero
        split: sum.splits prod.splits)


lemma load_morph_targets_InrD:
  assumes "load_morph_targets h f config face w4 = Some (Inr (ne, ni), w')"
  obtains en em w5 inn im w6 where
    "expression_loop h f config w4 = Inr ((en, em), w5)"
    "identity_loop h f 0 (([], []), w5) = Some ((inn, im), w6)"
    "ne = length em" "ni = length im" "w' = assemble h face em im w6"
  using assms
  by (auto simp add: load_morph_targets_def split: sum.splits prod.splits option.splits if_splits)


subsection \<open>The import of the neutral mesh and the assembly\<close>








subsection \<open>The identity loop ends\<close>

lemma absent_identity_index:
  assumes "finite {p. path_exists h p \<and> (\<exists>n. p = identity_filepath f n)}"
  shows "\<exists>k\<ge>n. \<not> path_exists h (identity_filepath f k)"
proof (rule ccontr)
  assume "\<not> ?thesis"
  then have all: "\<And>k. n \<le> k \<Longrightarrow> path_exists h (identity_filepath f k)" by blast
  have "inj_on (identity_filepath f) {n..}"
    by (rule inj_onI) (rule identity_filepath_inj)
  moreover have "infinite {n..}" by (rule infinite_Ici)
  ultimately have "infinite (identity_filepath f ` {n..})"
    using finite_imageD by blast
  moreover have "identity_filepath f ` {n..}
      \<subseteq> {p. path_exists h p \<and> (\<exists>n. p = identity_filepath f n)}"
    using all by auto
  ultimately show False using assms finite_subset by blast
qed

lemma identity_body_probe:
  "\<exists>fl ns' ms' w'. identity_body h f n ((ns, ms), w) = (fl, (ns', ms'), w')
     \<and> exists_calls w' = exists_calls w @ [identity_filepath f n]
     \<and> (\<not> path_exists h (identity_filepath f n) \<longrightarrow> fl = Break)"
proof (cases "path_exists h (identity_filepath f n)")
  case False
  then show ?thesis by (simp add: identity_body_cases)
next
  case True
  let ?w1 = "logger INFO (''Reading identity morph target: '' @ identity_morph_target_name n)
               (w\<lparr>exists_calls := exists_calls w @ [identity_filepath f n]\<rparr>)"
  obtain x w2 where io: "import_obj h (identity_filepath f n) ?w1 = (x, w2)"
    by (metis prod.collapse)
  have "exists_calls w2 = exists_calls w @ [identity_filepath f n]"
    using import_obj_trace(3) [of h "identity_filepath f n" ?w1] io by simp
  with True io show ?thesis
    by (cases x; cases "selected_objects (bpy w2)") (simp_all add: identity_body_cases)
qed

lemma identity_loop_probes:
  assumes "\<not> path_exists h (identity_filepath f k)" and "n \<le> k"
  shows "\<exists>ns' ms' w' j. identity_loop h f n ((ns, ms), w) = Some ((ns', ms'), w')
           \<and> n \<le> j \<and> j \<le> k
           \<and> exists_calls w' = exists_calls w @ map (identity_filepath f) [n..<Suc j]"
  using assms
proof (induction "k - n" arbitrary: n ns ms w)
  case 0
  then have "n = k" by simp
  with 0 show ?case by (auto simp add: identity_loop_absent)
next
  case (Suc d)
  then have "n < k" by simp
  obtain fl ns1 ms1 w1 where
    b: "identity_body h f n ((ns, ms), w) = (fl, (ns1, ms1), w1)"
    and tr: "exists_calls w1 = exists_calls w @ [identity_filepath f n]"
    using identity_body_probe [of h f n ns ms w] by blast
  show ?case
  proof (cases fl)
    case Break
    with b have "identity_loop h f n ((ns, ms), w) = Some ((ns1, ms1), w1)"
      by (subst identity_loop.simps) simp
    with tr \<open>n < k\<close> show ?thesis
      by (intro exI [of _ ns1] exI [of _ ms1] exI [of _ w1] exI [of _ n]) simp
  next
    case Continue
    with b have step: "identity_loop h f n ((ns, ms), w) =
        identity_loop h f (Suc n) ((ns1, ms1), w1)"
      by (subst identity_loop.simps) simp
    have "d = k - Suc n" using Suc.hyps(2) by simp
    with Suc.hyps(1) [of "Suc n" ns1 ms1 w1] Suc.prems(1) \<open>n < k\<close>
    obtain ns' ms' w' j where
      r: "identity_loop h f (Suc n) ((ns1, ms1), w1) = Some ((ns', ms'), w')"
      and j: "Suc n \<le> j" "j \<le> k"
      and tr': "exists_calls w' = exists_calls w1 @ map (identity_filepath f) [Suc n..<Suc j]"
      by auto
    have "[n..<Suc j] = n # [Suc n..<Suc j]"
      using j by (simp add: upt_conv_Cons)
    with step r j tr tr' show ?thesis
      by (intro exI [of _ ns'] exI [of _ ms'] exI [of _ w'] exI [of _ j]) simp
  qed
qed

lemma loadICTFaceModel_returns:
  assumes "\<not> path_exists h (identity_filepath f k)"
  shows "\<exists>r. loadICTFaceModel h f w = Some r"
proof -
  have loop: "\<exists>r. identity_loop h f 0 st = Some r" for st
    using identity_loop_returns [OF assms, of 0] by simp
  have "\<exists>r. load_morph_targets h f config face w4 = Some r" for config face w4
  proof (cases "expression_loop h f config w4")
    case (Inl ew)
    then show ?thesis by (cases ew) (simp add: load_morph_targets_def)
  next
    case (Inr st)
    obtain en em w5 where st: "st = ((en, em), w5)" by (metis prod.collapse)
    obtain inn im w6 where "identity_loop h f 0 (([], []), w5) = Some ((inn, im), w6)"
      using loop [of "(([], []), w5)"] by (metis prod.collapse)
    with Inr st show ?thesis by (simp add: load_morph_targets_def)
  qed
  then show ?thesis
    by (auto simp add: loadICTFaceModel_def split: prod.splits sum.splits)
qed


subsection \<open>The example host\<close>

lemma face_host_simps [simp]:
  "isdir (face_host files cfg table) p = (p = ''/face'')"
  "path_exists (face_host files cfg table) p = (p \<in> set files)"
  "json_load (face_host files cfg table) p = cfg"
  by (simp_all add: face_host_def)

lemma face_host_import_obj:
  "import_obj (face_host files cfg table) p w =
     (case map_of table p of
        None \<Rightarrow> (Inl (Exn RuntimeError (''Error: cannot read '' @ p)),
                 w\<lparr>import_calls := import_calls w @ [p]\<rparr>)
      | Some None \<Rightarrow>
          (Inr FINISHED,
           w\<lparr>import_calls := import_calls w @ [p], bpy := (bpy w)\<lparr>selected_objects := []\<rparr>\<rparr>)
      | Some (Some ob) \<Rightarrow>
          (Inr FINISHED,
           w\<lparr>import_calls := import_calls w @ [p],
             bpy := (bpy w)\<lparr>obj_name := (obj_name (bpy w))(ob \<mapsto> p),
                              selected_objects := [ob]\<rparr>\<rparr>))"
  by (simp add: import_obj_def face_host_def table_importer_def split: option.splits)

lemma face_host_import_yields:
  "import_yields (face_host files cfg table) p w = (\<exists>ob. map_of table p = Some (Some ob))"
  by (simp add: import_yields_def face_host_import_obj split: option.splits)

lemma face_paths:
  "identity_filepath ''/face'' 0 = ''/face/identity000.obj''"
  "identity_filepath ''/face'' (Suc 0) = ''/face/identity001.obj''"
  "identity_filepath ''/face'' 2 = ''/face/identity002.obj''"
  "expression_filepath ''/face'' ''smile'' = ''/face/smile.obj''"
  "expression_filepath ''/face'' ''frown'' = ''/face/frown.obj''"
  "path_join ''/face'' generic_neutral_filename = ''/face/generic_neutral_mesh.obj''"
  "path_join ''/face'' config_filename = ''/face/vertex_indices.json''"
  by code_simp+


subsection \<open>The checks before the first import\<close>

text \<open>
  C4. When the path is not a directory, or the neutral mesh file or the settings file is
  not in it, the function raises before any call of \<^verbatim>\<open>import_obj\<close> and leaves the
  scene as it was. The exception for a path that is not a directory is the
  \<^verbatim>\<open>ValueError\<close> of line 47 (with the path in its message); the one for a missing
  file is the \<^verbatim>\<open>FileNotFoundError\<close> of line 59 or 62, which names the file. These
  are the raise sites the specification calls NotFoundError.
\<close>

theorem required_inputs_missing:
  assumes "\<not> isdir h folderpath
           \<or> \<not> path_exists h (path_join folderpath generic_neutral_filename)
           \<or> \<not> path_exists h (path_join folderpath config_filename)"
  shows "\<exists>w'. loadICTFaceModel h folderpath w =
            Some (Inl (if \<not> isdir h folderpath
                       then Exn ValueError (''Invalid directory path: '' @ folderpath)
                       else if \<not> path_exists h (path_join folderpath generic_neutral_filename)
                       then Exn FileNotFoundError
                              (''Cannot find neutral mesh: ''
                                 @ path_join folderpath generic_neutral_filename)
                       else Exn FileNotFoundError
                              (''Cannot find config file: ''
                                 @ path_join folderpath config_filename)), w')
          \<and> import_calls w' = import_calls w \<and> bpy w' = bpy w"
  using assms
  by (auto simp add: loadICTFaceModel_def prepare_def os_path_exists_def logger_def Let_def)

theorem required_inputs_missing_witness:
  "map_option fst (loadICTFaceModel
     (face_host [''/face/vertex_indices.json''] (Inr (JObj [(''expressions'', JArr [])])) [])
     ''/face'' empty_world)
     = Some (Inl (Exn FileNotFoundError
                    ''Cannot find neutral mesh: /face/generic_neutral_mesh.obj''))
   \<and> map_option (import_calls \<circ> snd) (loadICTFaceModel
     (face_host [''/face/vertex_indices.json''] (Inr (JObj [(''expressions'', JArr [])])) [])
     ''/face'' empty_world) = Some []
   \<and> map_option fst (loadICTFaceModel scenario_host ''/nowhere'' empty_world)
     = Some (Inl (Exn ValueError ''Invalid directory path: /nowhere''))"
  using required_inputs_missing
    [of "face_host [''/face/vertex_indices.json''] (Inr (JObj [(''expressions'', JArr [])])) []"
        "''/face''" empty_world]
    required_inputs_missing [of scenario_host "''/nowhere''" empty_world]
  by (auto simp add: path_join_def generic_neutral_filename_def empty_world_def
        scenario_host_def)

text \<open>
  C5. When the settings file is there but holds the empty object (or any other value
  Python takes for false), or is not valid JSON, the function raises the
  \<^verbatim>\<open>ValueError\<close> of line 70 or of line 75 (the specification's ConfigError), before
  any call of \<^verbatim>\<open>import_obj\<close>.
\<close>

theorem empty_or_invalid_settings:
  assumes "isdir h folderpath"
    and "path_exists h (path_join folderpath generic_neutral_filename)"
    and "path_exists h (path_join folderpath config_filename)"
    and "(\<exists>config. json_load h (path_join folderpath config_filename) = Inr config
                    \<and> \<not> py_truthy config)
         \<or> (\<exists>m. json_load h (path_join folderpath config_filename)
                    = Inl (Exn JSONDecodeError m))"
  shows "\<exists>w'. loadICTFaceModel h folderpath w =
            Some (Inl (Exn ValueError
                    (case json_load h (path_join folderpath config_filename) of
                       Inr config \<Rightarrow> ''Empty configuration file''
                     | Inl e \<Rightarrow> ''Invalid JSON in config file: ''
                                  @ path_join folderpath config_filename)), w')
          \<and> import_calls w' = import_calls w \<and> bpy w' = bpy w"
  using assms
  by (auto simp add: loadICTFaceModel_def prepare_def os_path_exists_def logger_def Let_def
        load_settings_def)

theorem empty_or_invalid_settings_witness:
  "map_option fst (loadICTFaceModel
     (face_host [''/face/generic_neutral_mesh.obj'', ''/face/vertex_indices.json'']
        (Inr (JObj [])) [(''/face/generic_neutral_mesh.obj'', Some 0)])
     ''/face'' empty_world)
     = Some (Inl (Exn ValueError ''Empty configuration file''))
   \<and> map_option (import_calls \<circ> snd) (loadICTFaceModel
     (face_host [''/face/generic_neutral_mesh.obj'', ''/face/vertex_indices.json'']
        (Inr (JObj [])) [(''/face/generic_neutral_mesh.obj'', Some 0)])
     ''/face'' empty_world) = Some []
   \<and> map_option fst (loadICTFaceModel
     (face_host [''/face/generic_neutral_mesh.obj'', ''/face/vertex_indices.json'']
        (Inl (Exn JSONDecodeError ''Expecting value: line 1 column 1 (char 0)''))
        [(''/face/generic_neutral_mesh.obj'', Some 0)])
     ''/face'' empty_world)
     = Some (Inl (Exn ValueError ''Invalid JSON in config file: /face/vertex_indices.json''))"
  using empty_or_invalid_settings
    [of "face_host [''/face/generic_neutral_mesh.obj'', ''/face/vertex_indices.json'']
           (Inr (JObj [])) [(''/face/generic_neutral_mesh.obj'', Some 0)]"
        "''/face''" empty_world]
    empty_or_invalid_settings
    [of "face_host [''/face/generic_neutral_mesh.obj'', ''/face/vertex_indices.json'']
           (Inl (Exn JSONDecodeError ''Expecting value: line 1 column 1 (char 0)''))
           [(''/face/generic_neutral_mesh.obj'', Some 0)]"
        "''/face''" empty_world]
  by (auto simp add: path_join_def generic_neutral_filename_def
        config_filename_def empty_world_def)

subsection \<open>Identity discovery\<close>

text \<open>
  C1, amended. Let the checks, the settings and the neutral mesh be through, and the
  expressions of the settings be a list of strings. If the identity files for the
  indices below \<open>k\<close> exist and each imports as an object, and the file for \<open>k\<close>
  does not exist, then the identity loop collects the \<open>k\<close> names
  \<^verbatim>\<open>identity000\<close>, ... in order and \<open>k\<close> objects; it tests the files of the
  indices \<open>0..k\<close> and no other, and imports those of \<open>0..k-1\<close>; and the function
  returns \<open>k\<close> as the identity count, unless \<open>k = 0\<close> and no expression was
  collected, where it raises.
\<close>

theorem identity_discovery_contiguous:
  assumes "prepare h f w = (Inr (config, face), w4)"
    and "py_getitem config ''expressions'' = Inr (JArr (map JStr names))"
    and "\<forall>i<k. path_exists h (identity_filepath f i)
                 \<and> (\<forall>w. import_yields h (identity_filepath f i) w)"
    and "\<not> path_exists h (identity_filepath f k)"
  shows "\<exists>en em w5 im w6.
           expression_loop h f config w4 = Inr ((en, em), w5)
         \<and> identity_loop h f 0 (([], []), w5) =
             Some ((map identity_morph_target_name [0..<k], im), w6)
         \<and> length im = k
         \<and> exists_calls w6 = exists_calls w5 @ map (identity_filepath f) [0..<Suc k]
         \<and> import_calls w6 = import_calls w5 @ map (identity_filepath f) [0..<k]
         \<and> loadICTFaceModel h f w =
             Some (if em = [] \<and> k = 0
                   then (Inl (Exn ValueError ''No valid morph targets found in directory''), w6)
                   else (Inr (length em, k), assemble h face em im w6))"
proof -
  obtain en em w5 where
    e: "expression_loop h f config w4 = Inr ((en, em), w5)"
    using expression_items_strings [of h f names "(([], []), w4)"]
      expression_loop_strings [OF assms(2), of h f w4] by auto
  from assms(3,4) obtain im w6 where
    i: "identity_loop h f 0 (([], []), w5) =
          Some ((map identity_morph_target_name [0..<k], im), w6)"
    and len: "length im = k"
    and tr: "exists_calls w6 = exists_calls w5 @ map (identity_filepath f) [0..<Suc k]"
      "import_calls w6 = import_calls w5 @ map (identity_filepath f) [0..<k]"
    using identity_loop_contiguous [of 0 k h f "[]" "[]" w5] by auto
  have "loadICTFaceModel h f w =
          Some (if em = [] \<and> k = 0
                then (Inl (Exn ValueError ''No valid morph targets found in directory''), w6)
                else (Inr (length em, k), assemble h face em im w6))"
    using loadICTFaceModel_prepared [OF assms(1)] load_morph_targets_result [OF e i, of face] len
    by auto
  with e i len tr show ?thesis by blast
qed

theorem identity_discovery_contiguous_witness:
  "map_option fst (loadICTFaceModel gap_host ''/face'' empty_world) = Some (Inr (1, 2))"
proof -
  let ?c = "JObj [(''expressions'', JArr [JStr ''smile''])]"
  have "fst (prepare gap_host ''/face'' empty_world) = Inr (?c, 0)"
    by code_simp
  then obtain w4 where p: "prepare gap_host ''/face'' empty_world = (Inr (?c, 0), w4)"
    by (metis prod.collapse)
  have g: "py_getitem ?c ''expressions'' = Inr (JArr (map JStr [''smile'']))"
    by simp
  have y: "\<forall>i<2. path_exists gap_host (identity_filepath ''/face'' i)
                 \<and> (\<forall>w. import_yields gap_host (identity_filepath ''/face'' i) w)"
    by (simp add: less_2_cases_iff gap_host_def face_host_import_yields face_paths)
  have a: "\<not> path_exists gap_host (identity_filepath ''/face'' 2)"
    by (simp add: face_paths gap_host_def)
  have s: "\<forall>n\<in>set [''smile'']. path_exists gap_host (expression_filepath ''/face'' n) \<longrightarrow>
             (\<forall>w. import_yields gap_host (expression_filepath ''/face'' n) w = True)"
    by (simp add: gap_host_def face_host_import_yields face_paths)
  from expression_items_static [OF s, of "[]" "[]" w4] obtain em' w5' where
    e: "expression_loop gap_host ''/face'' ?c w4 = Inr (([''smile''], em'), w5')"
    and len: "length em' = 1"
    by (auto simp add: expression_loop_def gap_host_def face_paths)
  from identity_discovery_contiguous [OF p g y a] e len show ?thesis by auto
qed

text \<open>
  C1 as stated fails when an identity file exists and its import raises: with
  \<^verbatim>\<open>identity000.obj\<close> present and \<^verbatim>\<open>identity001.obj\<close> absent the function returns
  the identity count 0, not 1.
\<close>

theorem identity_discovery_counterexample:
  "path_exists unreadable_identity_host (identity_filepath ''/face'' 0)
   \<and> \<not> path_exists unreadable_identity_host (identity_filepath ''/face'' (Suc 0))
   \<and> map_option fst (loadICTFaceModel unreadable_identity_host ''/face'' empty_world)
       = Some (Inr (1, 0))"
proof -
  let ?h = unreadable_identity_host
  let ?c = "JObj [(''expressions'', JArr [JStr ''smile''])]"
  have "fst (prepare ?h ''/face'' empty_world) = Inr (?c, 0)"
    by code_simp
  then obtain w4 where p: "prepare ?h ''/face'' empty_world = (Inr (?c, 0), w4)"
    by (metis prod.collapse)
  have "\<forall>n\<in>set [''smile'']. path_exists ?h (expression_filepath ''/face'' n) \<longrightarrow>
           (\<forall>w. import_yields ?h (expression_filepath ''/face'' n) w = True)"
    by (simp add: unreadable_identity_host_def face_host_import_yields face_paths)
  from expression_items_static [OF this, of "[]" "[]" w4] obtain em w5 where
    e: "expression_loop ?h ''/face'' ?c w4 = Inr (([''smile''], em), w5)"
    and len: "length em = 1"
    by (auto simp add: expression_loop_def unreadable_identity_host_def face_paths)
  have ex: "path_exists ?h (identity_filepath ''/face'' 0)"
    and nex: "\<not> path_exists ?h (identity_filepath ''/face'' (Suc 0))"
    by (simp_all add: unreadable_identity_host_def face_paths)
  obtain w6 where i: "identity_loop ?h ''/face'' 0 (([], []), w5) = Some (([], []), w6)"
    using identity_loop_raises [OF ex, of w5 _ _ "[]" "[]"]
    by (simp add: unreadable_identity_host_def face_host_import_obj face_paths)
  show ?thesis
    using ex nex loadICTFaceModel_prepared [OF p] load_morph_targets_result [OF e i, of 0] len
    by auto
qed

text \<open>
  C10. In a directory with finitely many identity files there is a first index \<open>k\<close>
  whose file is absent; the identity loop ends, having tested the files of the indices
  \<open>0..j\<close> for some \<open>j \<le> k\<close> (it ends before \<open>k\<close> when an import raises). So
  the loop returns from every index and state, and the function as a whole returns or
  raises.
\<close>

theorem identity_discovery_terminates:
  assumes "finite {p. path_exists h p \<and> (\<exists>n. p = identity_filepath f n)}"
  shows "(\<exists>k. \<not> path_exists h (identity_filepath f k)
              \<and> (\<forall>i<k. path_exists h (identity_filepath f i))
              \<and> (\<exists>ns ms w' j. identity_loop h f 0 (([], []), w) = Some ((ns, ms), w')
                    \<and> j \<le> k
                    \<and> exists_calls w' = exists_calls w @ map (identity_filepath f) [0..<Suc j]))
         \<and> (\<forall>n st. \<exists>r. identity_loop h f n st = Some r)
         \<and> (\<forall>w. \<exists>r. loadICTFaceModel h f w = Some r)"
proof (intro conjI allI)
  from absent_identity_index [OF assms, of 0]
  obtain k0 where k0: "\<not> path_exists h (identity_filepath f k0)" by blast
  define k where "k = (LEAST k. \<not> path_exists h (identity_filepath f k))"
  have absent: "\<not> path_exists h (identity_filepath f k)"
    unfolding k_def using k0 by (rule LeastI)
  have below: "\<forall>i<k. path_exists h (identity_filepath f i)"
    unfolding k_def using not_less_Least by blast
  from identity_loop_probes [OF absent, of 0 "[]" "[]" w]
  show "\<exists>k. \<not> path_exists h (identity_filepath f k)
              \<and> (\<forall>i<k. path_exists h (identity_filepath f i))
              \<and> (\<exists>ns ms w' j. identity_loop h f 0 (([], []), w) = Some ((ns, ms), w')
                    \<and> j \<le> k
                    \<and> exists_calls w' = exists_calls w @ map (identity_filepath f) [0..<Suc j])"
    using absent below by blast
next
  fix n st
  from absent_identity_index [OF assms, of n]
  obtain k where "n \<le> k" "\<not> path_exists h (identity_filepath f k)" by blast
  then show "\<exists>r. identity_loop h f n st = Some r"
    by (rule identity_loop_returns [rotated])
next
  fix w
  from absent_identity_index [OF assms, of 0]
  obtain k where "\<not> path_exists h (identity_filepath f k)" by blast
  then show "\<exists>r. loadICTFaceModel h f w = Some r"
    by (rule loadICTFaceModel_returns)
qed

theorem identity_discovery_terminates_witness:
  "finite {p. path_exists gap_host p \<and> (\<exists>n. p = identity_filepath ''/face'' n)}
   \<and> (\<exists>r. loadICTFaceModel gap_host ''/face'' empty_world = Some r)"
proof -
  have fin: "finite {p. path_exists gap_host p \<and> (\<exists>n. p = identity_filepath ''/face'' n)}"
    by (simp add: gap_host_def)
  from identity_discovery_terminates [OF fin, of empty_world] fin show ?thesis by blast
qed

subsection \<open>No morph target\<close>

text \<open>
  C3. When the checks, the settings and the import of the neutral mesh are through and
  both loops end with no object collected, the function raises the \<^verbatim>\<open>ValueError\<close>
  of line 158 (the specification's NoMorphTargetsError). It never returns \<open>(0, 0)\<close>.
\<close>

theorem no_morph_targets:
  "(prepare h f w = (Inr (config, face), w4)
      \<and> expression_loop h f config w4 = Inr ((en, []), w5)
      \<and> identity_loop h f 0 (([], []), w5) = Some ((inn, []), w6)
    \<longrightarrow> loadICTFaceModel h f w =
          Some (Inl (Exn ValueError ''No valid morph targets found in directory''), w6))
   \<and> (\<forall>w'. loadICTFaceModel h f w \<noteq> Some (Inr (0, 0), w'))"
  using loadICTFaceModel_prepared [of h f w config face w4]
    load_morph_targets_result [of h f config w4 en "[]" w5 inn "[]" w6 face]
    loadICTFaceModel_never_zero [of h f w]
  by auto

theorem no_morph_targets_witness:
  "map_option fst (loadICTFaceModel bare_host ''/face'' empty_world) =
     Some (Inl (Exn ValueError ''No valid morph targets found in directory''))"
proof -
  let ?h = bare_host
  let ?c = "JObj [(''expressions'', JArr [JStr ''smile''])]"
  have "fst (prepare ?h ''/face'' empty_world) = Inr (?c, 0)"
    by code_simp
  then obtain w4 where p: "prepare ?h ''/face'' empty_world = (Inr (?c, 0), w4)"
    by (metis prod.collapse)
  obtain w5 where e: "expression_loop ?h ''/face'' ?c w4 = Inr (([], []), w5)"
    by (simp add: expression_loop_def expression_body_JStr expression_import_cases
          bare_host_def face_paths del: expression_body.simps)
  obtain w6 where i: "identity_loop ?h ''/face'' 0 (([], []), w5) = Some (([], []), w6)"
    by (simp add: identity_loop_absent bare_host_def face_paths)
  from no_morph_targets [of ?h "''/face''" empty_world ?c 0 w4 "[]" w5 "[]" w6] p e i
  show ?thesis by simp
qed


subsection \<open>Settings without the key \<^verbatim>\<open>expressions\<close>\<close>

text \<open>
  C7, amended. When the settings are a non-empty object without the key
  \<^verbatim>\<open>expressions\<close>, reading the settings does not fail. The neutral mesh is then
  imported, and the function raises: the \<^verbatim>\<open>ImportError\<close> of the base import if
  that fails, otherwise \<^verbatim>\<open>KeyError\<close> for \<^verbatim>\<open>'expressions'\<close> at line 101, before
  any expression or identity file is tested or imported.
\<close>

theorem missing_expressions_key:
  assumes "isdir h f"
    and "path_exists h (path_join f generic_neutral_filename)"
    and "path_exists h (path_join f config_filename)"
    and "json_load h (path_join f config_filename) = Inr (JObj kvs)"
    and "kvs \<noteq> []"
    and "map_of kvs ''expressions'' = None"
  shows "load_settings h (path_join f config_filename) w2 = (Inr (JObj kvs), w2)
       \<and> (\<exists>e w'. loadICTFaceModel h f w = Some (Inl e, w')
              \<and> (exn_class e = ImportError \<or> e = Exn KeyError (sq ''expressions''))
              \<and> ((\<forall>w. import_yields h (path_join f generic_neutral_filename) w)
                    \<longrightarrow> e = Exn KeyError (sq ''expressions''))
              \<and> (import_yields h (path_join f generic_neutral_filename) w
                    \<longrightarrow> e = Exn KeyError (sq ''expressions''))
              \<and> (\<not> import_yields h (path_join f generic_neutral_filename) w
                    \<longrightarrow> exn_class e = ImportError)
              \<and> import_calls w' = import_calls w @ [path_join f generic_neutral_filename]
              \<and> exists_calls w' = exists_calls w
                    @ [path_join f generic_neutral_filename, path_join f config_filename])"
proof -
  let ?n = "path_join f generic_neutral_filename"
  let ?w3 = "(logger INFO (''Starting model load from directory: '' @ f) w)
                \<lparr>exists_calls := exists_calls w @ [?n]\<rparr>
                \<lparr>exists_calls := exists_calls w @ [?n, path_join f config_filename]\<rparr>"
  let ?w3' = "logger INFO (''Attempting to import neutral mesh: '' @ ?n) ?w3"
  have ls: "load_settings h (path_join f config_filename) w2 = (Inr (JObj kvs), w2)" for w2
    using assms(4,5) by (simp add: load_settings_def)
  have prep: "prepare h f w =
     (case import_neutral h ?n ?w3 of
        (Inl e, w4) \<Rightarrow> (Inl e, w4)
      | (Inr face, w4) \<Rightarrow> (Inr (JObj kvs, face), w4))"
    using assms(1-3) by (simp add: prepare_def os_path_exists_def Let_def ls)
  obtain x wi where io: "import_obj h ?n ?w3' = (x, wi)" by (metis prod.collapse)
  have tr: "import_calls wi = import_calls w @ [?n]"
    "exists_calls wi = exists_calls w @ [?n, path_join f config_filename]"
    using import_obj_trace(1) [of h ?n ?w3'] import_obj_trace(3) [of h ?n ?w3'] io
    by simp_all
  have el: "expression_loop h f (JObj kvs) w4 = Inl (Exn KeyError (sq ''expressions''), w4)" for w4
    using assms(6) by (simp add: expression_loop_def)
  have yw: "import_yields h ?n ?w3' = import_yields h ?n w"
    by (rule import_yields_scene) (simp add: logger_def)
  show ?thesis
  proof (cases "import_yields h ?n ?w3'")
    case True
    then obtain r ob rest where x: "x = Inr r" and sel: "selected_objects (bpy wi) = ob # rest"
      using io by (auto elim!: import_yieldsD)
    have "loadICTFaceModel h f w =
            Some (Inl (Exn KeyError (sq ''expressions'')),
                  logger INFO ''Successfully imported neutral mesh''
                    (set_name ob face_model_name wi))"
      using io x sel
      by (simp add: loadICTFaceModel_def prep import_neutral_def load_morph_targets_def el)
    with tr ls True yw show ?thesis by simp
  next
    case False
    then have "(\<exists>e. x = Inl e) \<or> (\<exists>r. x = Inr r \<and> selected_objects (bpy wi) = [])"
      using io by (cases x) (simp_all add: import_yields_def)
    then obtain e w' where
      "loadICTFaceModel h f w = Some (Inl e, w')" "exn_class e = ImportError"
      "import_calls w' = import_calls wi" "exists_calls w' = exists_calls wi"
      using io
      by (auto simp add: loadICTFaceModel_def prep import_neutral_def)
    with tr ls False yw show ?thesis by auto
  qed
qed

text \<open>
  C7 as stated fails: with a settings file \<^verbatim>\<open>{"version": 1}\<close> the function raises
  \<^verbatim>\<open>KeyError\<close> for the key \<^verbatim>\<open>expressions\<close>, where the claim has the
  expression loop collect nothing and no error about the settings.
\<close>

theorem missing_expressions_key_counterexample:
  "json_load no_expressions_key_host ''/face/vertex_indices.json''
     = Inr (JObj [(''version'', JInt 1)])
   \<and> map_option fst (loadICTFaceModel no_expressions_key_host ''/face'' empty_world)
     = Some (Inl (Exn KeyError (sq ''expressions'')))"
proof -
  let ?h = no_expressions_key_host
  have "fst (prepare ?h ''/face'' empty_world) = Inr (JObj [(''version'', JInt 1)], 0)"
    by code_simp
  then obtain w4 where p: "prepare ?h ''/face'' empty_world = (Inr (JObj [(''version'', JInt 1)], 0), w4)"
    by (metis prod.collapse)
  have "json_load ?h ''/face/vertex_indices.json'' = Inr (JObj [(''version'', JInt 1)])"
    by (simp add: no_expressions_key_host_def)
  then show ?thesis
    by (simp add: loadICTFaceModel_prepared [OF p] load_morph_targets_def expression_loop_def)
qed

theorem missing_expressions_key_witness:
  "\<exists>w'. loadICTFaceModel no_expressions_key_host ''/face'' empty_world =
           Some (Inl (Exn KeyError (sq ''expressions'')), w')
         \<and> import_calls w' = [''/face/generic_neutral_mesh.obj'']"
proof -
  let ?h = no_expressions_key_host
  have y: "\<forall>w. import_yields ?h (path_join ''/face'' generic_neutral_filename) w"
    by (simp add: no_expressions_key_host_def face_host_import_yields face_paths)
  from missing_expressions_key [of ?h "''/face''" "[(''version'', JInt 1)]" empty_world empty_world] y
  show ?thesis
    by (auto simp add: no_expressions_key_host_def face_paths empty_world_def)
qed

subsection \<open>The collected expressions\<close>

text \<open>
  C9. Whatever the settings hold under \<^verbatim>\<open>expressions\<close> and whatever the files and
  the importer do, the names the expression loop collects are, in order, a subsequence
  of the items of \<^verbatim>\<open>expressions\<close> (of the declared names, when the items are
  strings), with one object per name; and an expression count the function returns is
  at most the number of items.
\<close>

theorem collected_expressions_subsequence:
  assumes "py_getitem config ''expressions'' = Inr v" and "py_iter v = Inr items"
  shows "(\<forall>en em w5. expression_loop h f config w4 = Inr ((en, em), w5) \<longrightarrow>
            subseq (map JStr en) items \<and> length em = length en
            \<and> (\<forall>names. items = map JStr names \<longrightarrow> subseq en names))
       \<and> (\<forall>face w4 ne ni w'.
            prepare h f w = (Inr (config, face), w4)
            \<and> loadICTFaceModel h f w = Some (Inr (ne, ni), w') \<longrightarrow> ne \<le> length items)"
proof -
  have sub: "subseq (map JStr en) items \<and> length em = length en"
    if "expression_loop h f config w4 = Inr ((en, em), w5)" for w4 en em w5
  proof -
    from that assms have "expression_items h f items (([], []), w4) = Inr ((en, em), w5)"
      by (simp add: expression_loop_def)
    from expression_items_subseq [OF this] show ?thesis by simp
  qed
  have "ne \<le> length items"
    if p: "prepare h f w = (Inr (config, face), w4)"
      and r: "loadICTFaceModel h f w = Some (Inr (ne, ni), w')" for face w4 ne ni w'
  proof -
    from r have "load_morph_targets h f config face w4 = Some (Inr (ne, ni), w')"
      by (simp add: loadICTFaceModel_prepared [OF p])
    then obtain en em w5 where
      e: "expression_loop h f config w4 = Inr ((en, em), w5)" and ne: "ne = length em"
      by (rule load_morph_targets_InrD)
    from sub [OF e] have s: "subseq (map JStr en) items" and l: "length em = length en"
      by simp_all
    from s have "length (map JStr en) \<le> length items"
      by (rule list_emb_length)
    with ne l show ?thesis by simp
  qed
  with sub show ?thesis by (blast dest: subseq_map_JStrD)
qed

theorem collected_expressions_subsequence_witness:
  "\<exists>en em w5. expression_loop scenario_host ''/face''
                 (JObj [(''expressions'', JArr [JStr ''smile'', JStr ''frown''])]) empty_world
               = Inr ((en, em), w5)
             \<and> subseq en [''smile'', ''frown''] \<and> length em = length en"
proof -
  let ?c = "JObj [(''expressions'', JArr [JStr ''smile'', JStr ''frown''])]"
  have g: "py_getitem ?c ''expressions'' = Inr (JArr [JStr ''smile'', JStr ''frown''])"
    by simp
  have i: "py_iter (JArr [JStr ''smile'', JStr ''frown'']) = Inr [JStr ''smile'', JStr ''frown'']"
    by simp
  obtain en em w5 where
    e: "expression_loop scenario_host ''/face'' ?c empty_world = Inr ((en, em), w5)"
    using expression_items_strings [of scenario_host "''/face''" "[''smile'', ''frown'']"
        "(([], []), empty_world)"]
    by (auto simp add: expression_loop_def)
  from collected_expressions_subsequence [OF g i, of scenario_host "''/face''" empty_world] e
  show ?thesis by auto
qed


text \<open>
  C2. Let the checks, the settings and the neutral mesh be through, the expressions of
  the settings be a list of names, and let \<open>ok n\<close> say whether the file of the
  name \<open>n\<close>, when it exists, imports as an object. Then the expression loop raises
  nothing and collects, in the order of the list, the names whose file exists and
  imports; a name whose file is absent is passed over. The count the function returns
  is the number of these names (the function raises when neither loop has collected
  anything).
\<close>

theorem expression_count:
  assumes "prepare h f w = (Inr (config, face), w4)"
    and "py_getitem config ''expressions'' = Inr (JArr (map JStr names))"
    and "\<forall>n\<in>set names. path_exists h (expression_filepath f n) \<longrightarrow>
           (\<forall>w. import_yields h (expression_filepath f n) w = ok n)"
    and "\<not> path_exists h (identity_filepath f k)"
  shows "\<exists>em w5 inn im w6.
           expression_loop h f config w4 =
             Inr ((filter (\<lambda>n. path_exists h (expression_filepath f n) \<and> ok n) names, em), w5)
         \<and> length em =
             length (filter (\<lambda>n. path_exists h (expression_filepath f n) \<and> ok n) names)
         \<and> identity_loop h f 0 (([], []), w5) = Some ((inn, im), w6)
         \<and> loadICTFaceModel h f w =
             Some (if em = [] \<and> im = []
                   then (Inl (Exn ValueError ''No valid morph targets found in directory''), w6)
                   else (Inr (length (filter (\<lambda>n. path_exists h (expression_filepath f n)
                                                 \<and> ok n) names), length im),
                         assemble h face em im w6))"
proof -
  let ?good = "\<lambda>n. path_exists h (expression_filepath f n) \<and> ok n"
  from expression_items_static [OF assms(3), of "[]" "[]" w4] obtain em w5 where
    e: "expression_loop h f config w4 = Inr ((filter ?good names, em), w5)"
    and len: "length em = length (filter ?good names)"
    by (auto simp add: expression_loop_strings [OF assms(2)])
  obtain inn im w6 where i: "identity_loop h f 0 (([], []), w5) = Some ((inn, im), w6)"
    using identity_loop_returns [OF assms(4), of 0 "(([], []), w5)"] by auto
  have "loadICTFaceModel h f w =
          Some (if em = [] \<and> im = []
                then (Inl (Exn ValueError ''No valid morph targets found in directory''), w6)
                else (Inr (length (filter ?good names), length im), assemble h face em im w6))"
    using loadICTFaceModel_prepared [OF assms(1)] load_morph_targets_result [OF e i, of face] len
    by simp
  with e len i show ?thesis by blast
qed

theorem expression_count_witness:
  "map_option fst (loadICTFaceModel scenario_host ''/face'' empty_world) = Some (Inr (1, 1))"
proof -
  let ?h = scenario_host
  let ?c = "JObj [(''expressions'', JArr [JStr ''smile'', JStr ''frown''])]"
  have "fst (prepare ?h ''/face'' empty_world) = Inr (?c, 0)"
    by code_simp
  then obtain w4 where p: "prepare ?h ''/face'' empty_world = (Inr (?c, 0), w4)"
    by (metis prod.collapse)
  have g: "py_getitem ?c ''expressions'' = Inr (JArr (map JStr [''smile'', ''frown'']))"
    by simp
  have s: "\<forall>n\<in>set [''smile'', ''frown'']. path_exists ?h (expression_filepath ''/face'' n) \<longrightarrow>
             (\<forall>w. import_yields ?h (expression_filepath ''/face'' n) w = True)"
    by (simp add: scenario_host_def face_host_import_yields face_paths)
  have a: "\<not> path_exists ?h (identity_filepath ''/face'' (Suc 0))"
    by (simp add: scenario_host_def face_paths)
  have y: "\<forall>i. 0 \<le> i \<and> i < Suc 0 \<longrightarrow> path_exists ?h (identity_filepath ''/face'' i)
             \<and> (\<forall>w. import_yields ?h (identity_filepath ''/face'' i) w)"
    by (simp add: scenario_host_def face_host_import_yields face_paths)
  from expression_count [OF p g s a] obtain em w5 inn im w6 where
    i: "identity_loop ?h ''/face'' 0 (([], []), w5) = Some ((inn, im), w6)"
    and r: "loadICTFaceModel ?h ''/face'' empty_world =
        Some (if em = [] \<and> im = []
              then (Inl (Exn ValueError ''No valid morph targets found in directory''), w6)
              else (Inr (length (filter (\<lambda>n. path_exists ?h (expression_filepath ''/face'' n) \<and> True)
                           [''smile'', ''frown'']), length im), assemble ?h 0 em im w6))"
    by blast
  from identity_loop_contiguous [OF y a, of "[]" "[]" w5] i have "length im = 1"
    by auto
  with r show ?thesis
    by (auto simp add: scenario_host_def face_paths)
qed

subsection \<open>An import that raises inside a loop\<close>

text \<open>
  C6. The two loops treat an exception of \<^verbatim>\<open>import_obj\<close> differently. In the
  expression loop it is caught, an ERROR record is logged, nothing is collected for that
  name and the loop goes on with the next item. In the identity loop it is caught, an
  ERROR record is logged and the loop ends with what it has collected. In neither case
  does the exception leave the function: for a list of names and a directory with an
  absent identity index, both loops end and the function returns the two counts, or
  raises the \<^verbatim>\<open>ValueError\<close> of line 158 when nothing at all was collected.
\<close>

theorem import_exception_policies:
  "(path_exists h (expression_filepath f n)
      \<and> import_obj h (expression_filepath f n)
            (logger INFO (''Reading expression morph target: '' @ n)
               (w\<lparr>exists_calls := exists_calls w @ [expression_filepath f n]\<rparr>)) = (Inl e, w2)
    \<longrightarrow> expression_items h f (JStr n # items) ((ns, ms), w) =
          expression_items h f items
            ((ns, ms), logger ERROR (''Error importing expression '' @ n @ '': '' @ str e) w2))
   \<and> (path_exists h (identity_filepath f k)
      \<and> import_obj h (identity_filepath f k)
            (logger INFO (''Reading identity morph target: '' @ identity_morph_target_name k)
               (w\<lparr>exists_calls := exists_calls w @ [identity_filepath f k]\<rparr>)) = (Inl e, w2)
    \<longrightarrow> identity_loop h f k ((ns, ms), w) =
          Some ((ns, ms),
                logger ERROR (''Error loading identity morph target ''
                               @ identity_morph_target_name k @ '': '' @ str e) w2))
   \<and> (prepare h f w0 = (Inr (config, face), w4)
      \<and> py_getitem config ''expressions'' = Inr (JArr (map JStr names))
      \<and> \<not> path_exists h (identity_filepath f j)
    \<longrightarrow> (\<exists>en em w5 inn im w6.
            expression_loop h f config w4 = Inr ((en, em), w5)
          \<and> identity_loop h f 0 (([], []), w5) = Some ((inn, im), w6)
          \<and> loadICTFaceModel h f w0 =
              Some (if em = [] \<and> im = []
                    then (Inl (Exn ValueError ''No valid morph targets found in directory''),
                          w6)
                    else (Inr (length em, length im), assemble h face em im w6))))"
proof (intro conjI impI)
  assume "path_exists h (expression_filepath f n)
      \<and> import_obj h (expression_filepath f n)
            (logger INFO (''Reading expression morph target: '' @ n)
               (w\<lparr>exists_calls := exists_calls w @ [expression_filepath f n]\<rparr>)) = (Inl e, w2)"
  then show "expression_items h f (JStr n # items) ((ns, ms), w) =
          expression_items h f items
            ((ns, ms), logger ERROR (''Error importing expression '' @ n @ '': '' @ str e) w2)"
    using expression_items_raises [of h f n w e w2 items ns ms] by blast
next
  assume "path_exists h (identity_filepath f k)
      \<and> import_obj h (identity_filepath f k)
            (logger INFO (''Reading identity morph target: '' @ identity_morph_target_name k)
               (w\<lparr>exists_calls := exists_calls w @ [identity_filepath f k]\<rparr>)) = (Inl e, w2)"
  then show "identity_loop h f k ((ns, ms), w) =
          Some ((ns, ms),
                logger ERROR (''Error loading identity morph target ''
                               @ identity_morph_target_name k @ '': '' @ str e) w2)"
    using identity_loop_raises [of h f k w e w2 ns ms] by blast
next
  assume a: "prepare h f w0 = (Inr (config, face), w4)
      \<and> py_getitem config ''expressions'' = Inr (JArr (map JStr names))
      \<and> \<not> path_exists h (identity_filepath f j)"
  then obtain en em w5 where
    e: "expression_loop h f config w4 = Inr ((en, em), w5)"
    using expression_items_strings [of h f names "(([], []), w4)"]
    by (auto simp add: expression_loop_strings)
  from a obtain inn im w6 where
    i: "identity_loop h f 0 (([], []), w5) = Some ((inn, im), w6)"
    using identity_loop_returns [of h f j 0 "(([], []), w5)"] by auto
  from a have "loadICTFaceModel h f w0 =
      Some (if em = [] \<and> im = []
            then (Inl (Exn ValueError ''No valid morph targets found in directory''), w6)
            else (Inr (length em, length im), assemble h face em im w6))"
    using loadICTFaceModel_prepared [of h f w0 config face w4]
      load_morph_targets_result [OF e i, of face] by simp
  with e i show "\<exists>en em w5 inn im w6.
            expression_loop h f config w4 = Inr ((en, em), w5)
          \<and> identity_loop h f 0 (([], []), w5) = Some ((inn, im), w6)
          \<and> loadICTFaceModel h f w0 =
              Some (if em = [] \<and> im = []
                    then (Inl (Exn ValueError ''No valid morph targets found in directory''),
                          w6)
                    else (Inr (length em, length im), assemble h face em im w6))"
    by blast
qed

theorem import_exception_policies_witness:
  "map_option fst (loadICTFaceModel failing_imports_host ''/face'' empty_world)
     = Some (Inr (1, 0))"
proof -
  let ?h = failing_imports_host
  let ?c = "JObj [(''expressions'', JArr [JStr ''smile'', JStr ''frown''])]"
  let ?smile = "Exn RuntimeError ''Error: cannot read /face/smile.obj''"
  let ?ident = "Exn RuntimeError ''Error: cannot read /face/identity000.obj''"
  have "fst (prepare ?h ''/face'' empty_world) = Inr (?c, 0)"
    by code_simp
  then obtain w4 where p: "prepare ?h ''/face'' empty_world = (Inr (?c, 0), w4)"
    by (metis prod.collapse)
  have g: "py_getitem ?c ''expressions'' = Inr (JArr (map JStr [''smile'', ''frown'']))"
    by simp
  have ex: "path_exists ?h (expression_filepath ''/face'' ''smile'')"
    "path_exists ?h (identity_filepath ''/face'' 0)"
    "\<not> path_exists ?h (identity_filepath ''/face'' (Suc 0))"
    by (simp_all add: failing_imports_host_def face_paths)
  obtain w2 where
    r1: "import_obj ?h (expression_filepath ''/face'' ''smile'')
           (logger INFO (''Reading expression morph target: '' @ ''smile'')
              (w4\<lparr>exists_calls := exists_calls w4 @ [expression_filepath ''/face'' ''smile'']\<rparr>))
         = (Inl ?smile, w2)"
    by (simp add: failing_imports_host_def face_host_import_obj face_paths)
  note pol = import_exception_policies
  from pol [of ?h "''/face''" "''smile''" w4 ?smile w2 "[JStr ''frown'']" "[]" "[]"] ex(1) r1
  have s1: "expression_items ?h ''/face'' [JStr ''smile'', JStr ''frown''] (([], []), w4) =
          expression_items ?h ''/face'' [JStr ''frown'']
            (([], []), logger ERROR (''Error importing expression '' @ ''smile'' @ '': ''
                                      @ str ?smile) w2)"
    by blast
  obtain w5 where
    e: "expression_loop ?h ''/face'' ?c w4 = Inr (([''frown''], [1]), w5)"
    by (simp add: expression_loop_def s1 expression_body_JStr expression_import_cases
          failing_imports_host_def face_host_import_obj face_paths del: expression_body.simps)
  obtain w6 where
    r2: "import_obj ?h (identity_filepath ''/face'' 0)
           (logger INFO (''Reading identity morph target: '' @ identity_morph_target_name 0)
              (w5\<lparr>exists_calls := exists_calls w5 @ [identity_filepath ''/face'' 0]\<rparr>))
         = (Inl ?ident, w6)"
    by (simp add: failing_imports_host_def face_host_import_obj face_paths)
  from pol [of ?h "''/face''" _ _ ?ident w6 _ "[]" "[]" 0 w5] ex(2) r2
  have i: "identity_loop ?h ''/face'' 0 (([], []), w5) =
          Some (([], []), logger ERROR (''Error loading identity morph target ''
                               @ identity_morph_target_name 0 @ '': '' @ str ?ident) w6)"
    by blast
  from pol [of ?h "''/face''" _ _ _ _ _ _ _ _ empty_world ?c 0 w4 "[''smile'', ''frown'']" "Suc 0"]
    p g ex(3) e i
  show ?thesis by auto
qed

subsection \<open>The import of the neutral mesh\<close>




end
